theory Spec2Isabelle
  imports Main
begin

section \<open>Python strings\<close>

text \<open>
  Text is modelled as \<open>string\<close>: a list of characters with code points 0 to 255, read
  as Python reads the code points of Latin-1. The functions below are the parts of
  Python's \<open>str\<close> and \<open>int\<close> that \<open>newapp.py\<close> calls.
\<close>

definition is_space :: "char \<Rightarrow> bool" where
  \<comment> \<open>the code points below 256 that \<open>str.strip\<close> and \<open>int\<close> drop: TAB, LF, VT, FF, CR,
      FS, GS, RS, US, SPACE, NEL (U+0085) and NO-BREAK SPACE (U+00A0)\<close>
  "is_space c = (of_char c \<in> {9, 10, 11, 12, 13, 28, 29, 30, 31, 32, 133, 160 :: nat})"

definition strip :: "string \<Rightarrow> string" where
  \<comment> \<open>\<open>s.strip()\<close>\<close>
  "strip s = rev (dropWhile is_space (rev (dropWhile is_space s)))"

fun starts_with :: "string \<Rightarrow> string \<Rightarrow> bool" where
  \<comment> \<open>\<open>s.startswith(p)\<close>, written \<open>starts_with p s\<close>\<close>
  "starts_with [] s = True"
| "starts_with (p # ps) [] = False"
| "starts_with (p # ps) (c # cs) = (p = c \<and> starts_with ps cs)"

fun contains :: "string \<Rightarrow> string \<Rightarrow> bool" where
  \<comment> \<open>\<open>sep in s\<close>, written \<open>contains sep s\<close>\<close>
  "contains sep [] = (sep = [])"
| "contains sep (c # cs) = (starts_with sep (c # cs) \<or> contains sep cs)"

function py_split :: "string \<Rightarrow> string \<Rightarrow> string \<Rightarrow> string list" where
  \<comment> \<open>\<open>s.split(sep)\<close> for a non-empty \<open>sep\<close> is \<open>py_split sep [] s\<close>: a scan from the left
      over non-overlapping occurrences; the second argument is the piece being read, reversed\<close>
  "py_split sep acc [] = [rev acc]"
| "py_split sep acc (c # cs) =
     (if sep \<noteq> [] \<and> starts_with sep (c # cs)
      then rev acc # py_split sep [] (drop (length sep) (c # cs))
      else py_split sep (c # acc) cs)"
  by pat_completeness auto
termination
  by (relation "measure (\<lambda>(sep, acc, s). length s)") (auto simp: neq_Nil_conv)

definition split :: "string \<Rightarrow> string \<Rightarrow> string list" where
  "split sep s = py_split sep [] s"

definition is_digit :: "char \<Rightarrow> bool" where
  \<comment> \<open>the decimal digits below code point 256 are \<open>0\<close> to \<open>9\<close>\<close>
  "is_digit c = (48 \<le> (of_char c :: nat) \<and> (of_char c :: nat) \<le> 57)"

definition digit_value :: "char \<Rightarrow> int" where
  "digit_value c = int (of_char c) - 48"

fun parse_digits :: "int \<Rightarrow> string \<Rightarrow> int option" where
  \<comment> \<open>the rest of a decimal literal after a digit: digits, each optionally preceded by one underscore\<close>
  "parse_digits acc [] = Some acc"
| "parse_digits acc [c] = (if is_digit c then Some (acc * 10 + digit_value c) else None)"
| "parse_digits acc (c # d # ds) =
     (if is_digit c then parse_digits (acc * 10 + digit_value c) (d # ds)
      else if c = CHR ''_'' \<and> is_digit d then parse_digits (acc * 10 + digit_value d) ds
      else None)"

definition parse_literal :: "string \<Rightarrow> int option" where
  "parse_literal s =
     (case s of [] \<Rightarrow> None
      | c # cs \<Rightarrow> if is_digit c then parse_digits (digit_value c) cs else None)"

definition py_int :: "string \<Rightarrow> int option" where
  \<comment> \<open>\<open>int(s)\<close> in base 10: surrounding whitespace, an optional sign, then digits with
      single underscores between them; \<open>None\<close> is \<open>ValueError\<close>. The limit that recent
      Python versions put on the number of digits is not modelled.\<close>
  "py_int s =
     (case strip s of [] \<Rightarrow> None
      | c # cs \<Rightarrow>
          if c = CHR ''-'' then map_option uminus (parse_literal cs)
          else if c = CHR ''+'' then parse_literal cs
          else parse_literal (c # cs))"

section \<open>The language-model gateway\<close>

text \<open>
  The hosted completion service is outside the repository. A client answers a request
  either by raising (every error of the client library derives from \<open>Exception\<close>) or
  with a completion object, of which the code reads \<open>choices[0].message.content\<close>.
  The prompt texts are fixed templates filled with the fields below, so a request is
  identified by its template and those fields.
\<close>

datatype gw_request =
    ClassifyRequest string string string   \<comment> \<open>today, df_info, prompt\<close>
  | QueryCodeRequest string string         \<comment> \<open>df_info, prompt\<close>
  | ChartCodeRequest string                \<comment> \<open>prompt\<close>

datatype gw_response =
    GwRaises string                        \<comment> \<open>\<open>str(e)\<close> of the exception raised by \<open>create\<close>\<close>
  | GwCompletion "string option list"      \<comment> \<open>\<open>message.content\<close> of each choice, \<open>None\<close> allowed\<close>

type_synonym client = "gw_request \<Rightarrow> gw_response"

section \<open>Datasets and Python values\<close>

text \<open>
  A DataFrame is stored by column: the row labels, and for each column its label, its
  dtype name and its cells. Labels and cells are kept as text.
\<close>

type_synonym column = "string \<times> string \<times> string list"

record dataset =
  df_index :: "string list"
  df_columns :: "column list"

datatype pyval =
    PyNone
  | PyInt int              \<comment> \<open>a number\<close>
  | PyFrame dataset        \<comment> \<open>a new DataFrame\<close>
  | PyFigure string        \<comment> \<open>a Plotly figure\<close>
  | PyDfRef                \<comment> \<open>the reference to the session's DataFrame object\<close>
  | PyModule string        \<comment> \<open>\<open>pd\<close>, \<open>px\<close>, \<open>datetime\<close>\<close>

datatype ui_event =
    UiWrite string
  | UiError string
  | UiCode string
  | UiDataframe pyval
  | UiChart pyval
  | UiWelcome

record message =
  m_role :: string
  m_content :: "string option"
  m_code :: "string option"
  m_result :: "pyval option"
  m_figure :: "pyval option"
  m_error :: "string option"

text \<open>
  What \<open>exec\<close> works on: the globals dictionary it is given; the namespace of the
  \<open>builtins\<close> module, in which a name missing from the globals is looked up and which
  every call of \<open>exec\<close> in the process shares (it stands for all interpreter state that
  outlives a call, such as imported modules); the contents of the DataFrame object that
  \<open>df\<close> refers to (shared with the session, so a write through the reference is seen
  by the caller); and the two redirected streams, of which the snippet may close the
  second.
\<close>

record exec_state =
  globals :: "string \<rightharpoonup> pyval"
  builtins :: "string \<rightharpoonup> pyval"
  frame :: dataset
  out :: string
  err :: string
  err_closed :: bool

datatype py_exc =
    Exc string        \<comment> \<open>an instance of \<open>Exception\<close>, with the text of \<open>traceback.format_exc()\<close>\<close>
  | BaseExc string    \<comment> \<open>\<open>SystemExit\<close>, \<open>KeyboardInterrupt\<close>, \<open>GeneratorExit\<close>: not an \<open>Exception\<close>\<close>

datatype exec_outcome =
    Finished exec_state
  | Raised py_exc exec_state
  | Hangs

text \<open>
  Python's \<open>exec(code, globals)\<close> is not part of the repository: the interpreter is a
  parameter, giving for a source text and a starting state how the run ends. So is
  \<open>str\<close> on the info dictionary.
\<close>

type_synonym interp = "string \<Rightarrow> exec_state \<Rightarrow> exec_outcome"

datatype 'a ctl =
    Return 'a
  | Propagate string    \<comment> \<open>an exception leaves the function\<close>
  | NoReturn            \<comment> \<open>the call never returns\<close>

record world =
  messages :: "message list"
  df :: "dataset option"
  groq_api_key :: string
  groq_client :: "client option"
  today :: string
  ui :: "ui_event list"
  gw_log :: "gw_request list"     \<comment> \<open>the requests sent to the completion service, in order\<close>
  exec_log :: "exec_state list"   \<comment> \<open>the states handed to \<open>exec\<close>, in order\<close>
  shared :: "string \<rightharpoonup> pyval"  \<comment> \<open>the namespace of \<open>builtins\<close> in this process\<close>

definition st_write :: "string \<Rightarrow> world \<Rightarrow> world" where
  "st_write s w = w\<lparr>ui := ui w @ [UiWrite s]\<rparr>"

definition st_error :: "string \<Rightarrow> world \<Rightarrow> world" where
  "st_error s w = w\<lparr>ui := ui w @ [UiError s]\<rparr>"

definition st_code :: "string \<Rightarrow> world \<Rightarrow> world" where
  "st_code s w = w\<lparr>ui := ui w @ [UiCode s]\<rparr>"

text \<open>
  \<open>st.dataframe\<close> draws a DataFrame (and an empty table for \<open>None\<close>) and raises for a
  value it cannot turn into one; \<open>st.plotly_chart\<close> draws a figure and raises for
  anything else. \<open>Inl\<close> carries the name of the exception.
\<close>

definition tabular :: "pyval \<Rightarrow> bool" where
  "tabular v = (case v of PyNone \<Rightarrow> True | PyFrame t \<Rightarrow> True | PyDfRef \<Rightarrow> True | _ \<Rightarrow> False)"

definition plottable :: "pyval \<Rightarrow> bool" where
  "plottable v = (case v of PyFigure f \<Rightarrow> True | _ \<Rightarrow> False)"

definition st_dataframe :: "pyval \<Rightarrow> world \<Rightarrow> string + world" where
  "st_dataframe v w =
     (if tabular v then Inr (w\<lparr>ui := ui w @ [UiDataframe v]\<rparr>) else Inl ''StreamlitAPIException'')"

definition st_plotly_chart :: "pyval \<Rightarrow> world \<Rightarrow> string + world" where
  "st_plotly_chart v w =
     (if plottable v then Inr (w\<lparr>ui := ui w @ [UiChart v]\<rparr>) else Inl ''PlotlyError'')"

definition create :: "client \<Rightarrow> gw_request \<Rightarrow> world \<Rightarrow> gw_response \<times> world" where
  \<comment> \<open>\<open>groq_client.chat.completions.create(...)\<close>\<close>
  "create cl req w = (cl req, w\<lparr>gw_log := gw_log w @ [req]\<rparr>)"

definition first_content :: "gw_response \<Rightarrow> string + string" where
  \<comment> \<open>\<open>chat_completion.choices[0].message.content.strip()\<close>; \<open>Inl\<close> carries \<open>str(e)\<close> of what
      is raised (\<open>IndexError\<close>, \<open>AttributeError\<close>), written without the quotation marks\<close>
  "first_content r =
     (case r of
        GwRaises e \<Rightarrow> Inl e
      | GwCompletion [] \<Rightarrow> Inl ''list index out of range''
      | GwCompletion (None # _) \<Rightarrow> Inl ''NoneType object has no attribute strip''
      | GwCompletion (Some c # _) \<Rightarrow> Inr (strip c))"

section \<open>Prompt classifier\<close>

definition classify_prompt :: "string \<Rightarrow> string \<Rightarrow> world \<Rightarrow> int \<times> world" where
  "classify_prompt prompt df_info w =
     (case groq_client w of
        None \<Rightarrow> (1, st_error ''Groq client not configured'' w)
      | Some cl \<Rightarrow>
          (case create cl (ClassifyRequest (today w) df_info prompt) w of
             (r, w1) \<Rightarrow>
               (case first_content r of
                  Inl e \<Rightarrow> (1, st_error (''Classification error: '' @ e) w1)
                | Inr text \<Rightarrow>
                    (case py_int text of
                       None \<Rightarrow>
                         (1, st_error (''Classification error: invalid literal for int() with base 10: ''
                               @ text) w1)
                     | Some n \<Rightarrow> (n, w1)))))"

section \<open>Code generator\<close>

definition item :: "'a list \<Rightarrow> nat \<Rightarrow> string + 'a" where
  \<comment> \<open>\<open>xs[i]\<close> for \<open>i \<ge> 0\<close>\<close>
  "item xs i = (if i < length xs then Inr (xs ! i) else Inl ''list index out of range'')"

definition extract_code :: "string \<Rightarrow> string + string" where
  \<comment> \<open>lines 159 to 164, on the stripped completion\<close>
  "extract_code code =
     (if contains ''```python'' code then
        (case item (split ''```python'' code) 1 of
           Inl e \<Rightarrow> Inl e
         | Inr a \<Rightarrow> (case item (split ''```'' a) 0 of Inl e \<Rightarrow> Inl e | Inr b \<Rightarrow> Inr (strip b)))
      else if contains ''```'' code then
        (case item (split ''```'' code) 1 of
           Inl e \<Rightarrow> Inl e
         | Inr a \<Rightarrow> (case item (split ''```'' a) 0 of Inl e \<Rightarrow> Inl e | Inr b \<Rightarrow> Inr (strip b)))
      else Inr code)"

definition generate_code :: "string \<Rightarrow> string \<Rightarrow> int \<Rightarrow> world \<Rightarrow> string option \<times> world" where
  "generate_code prompt df_info classification w =
     (case groq_client w of
        None \<Rightarrow> (None, st_error ''Groq client not configured'' w)
      | Some cl \<Rightarrow>
          (let req = (if classification = 1 then QueryCodeRequest df_info prompt
                      else ChartCodeRequest prompt)
           in case create cl req w of
             (r, w1) \<Rightarrow>
               (case first_content r of
                  Inl e \<Rightarrow> (None, st_error (''Code generation error: '' @ e) w1)
                | Inr code \<Rightarrow>
                    (case extract_code code of
                       Inl e \<Rightarrow> (None, st_error (''Code generation error: '' @ e) w1)
                     | Inr c \<Rightarrow> (Some c, w1)))))"

section \<open>Code executor\<close>

definition exec_globals :: "string \<rightharpoonup> pyval" where
  "exec_globals =
     [''df'' \<mapsto> PyDfRef, ''pd'' \<mapsto> PyModule ''pandas'', ''px'' \<mapsto> PyModule ''plotly.express'',
      ''result'' \<mapsto> PyNone, ''fig'' \<mapsto> PyNone, ''datetime'' \<mapsto> PyModule ''datetime'']"

definition dict_get :: "(string \<rightharpoonup> pyval) \<Rightarrow> string \<Rightarrow> pyval" where
  \<comment> \<open>\<open>d.get(k)\<close>\<close>
  "dict_get d k = (case d k of None \<Rightarrow> PyNone | Some v \<Rightarrow> v)"

definition exec_context :: "dataset \<Rightarrow> (string \<rightharpoonup> pyval) \<Rightarrow> exec_state" where
  \<comment> \<open>lines 172 to 184: the new globals dictionary and the two empty capture buffers, with
      the dataset object and the builtins as they are when the call starts\<close>
  "exec_context d b =
     \<lparr>globals = exec_globals, builtins = b, frame = d, out = [], err = [], err_closed = False\<rparr>"

definition closed_file_traceback :: string where
  \<comment> \<open>\<open>traceback.format_exc()\<close> when \<open>stderr_capture.getvalue()\<close> of line 187 raises, shortened\<close>
  "closed_file_traceback =
     ''Traceback (most recent call last): ValueError: I/O operation on closed file''"

definition execute_code ::
  "interp \<Rightarrow> string \<Rightarrow> dataset \<Rightarrow> world \<Rightarrow> (pyval \<times> pyval) ctl \<times> dataset \<times> world" where
  \<comment> \<open>the dataset returned is the contents of the object \<open>df\<close> refers to when the call ends
      (when the call never ends nobody reads it; the model then gives the contents at the start)\<close>
  "execute_code py code d w =
     (let s0 = exec_context d (shared w);
          w1 = w\<lparr>exec_log := exec_log w @ [s0]\<rparr>
      in case py code s0 of
           Finished s \<Rightarrow>
             (if err_closed s then
                (Return (PyNone, PyNone), frame s,
                 st_error (''Code execution failed:\<newline>```\<newline>'' @ closed_file_traceback @ ''\<newline>```'')
                   (w1\<lparr>shared := builtins s\<rparr>))
              else if err s \<noteq> [] then
                (Return (PyNone, PyNone), frame s,
                 st_error (''Execution error: '' @ err s) (w1\<lparr>shared := builtins s\<rparr>))
              else
                (Return (dict_get (globals s) ''result'', dict_get (globals s) ''fig''), frame s,
                 w1\<lparr>shared := builtins s\<rparr>))
         | Raised (Exc tb) s \<Rightarrow>
             (Return (PyNone, PyNone), frame s,
              st_error (''Code execution failed:\<newline>```\<newline>'' @ tb @ ''\<newline>```'')
                (w1\<lparr>shared := builtins s\<rparr>))
         | Raised (BaseExc name) s \<Rightarrow> (Propagate name, frame s, w1\<lparr>shared := builtins s\<rparr>)
         | Hangs \<Rightarrow> (NoReturn, d, w1))"

section \<open>DataFrame info\<close>

fun dict_set :: "'k \<Rightarrow> 'v \<Rightarrow> ('k \<times> 'v) list \<Rightarrow> ('k \<times> 'v) list" where
  \<comment> \<open>\<open>d[k] = v\<close> on a dictionary kept in insertion order\<close>
  "dict_set k v [] = [(k, v)]"
| "dict_set k v ((k', v') # d) = (if k' = k then (k, v) # d else (k', v') # dict_set k v d)"

definition to_dict :: "('k \<times> 'v) list \<Rightarrow> ('k \<times> 'v) list" where
  \<comment> \<open>the dictionary built from the pairs in order: a later pair with the same key wins\<close>
  "to_dict ps = foldl (\<lambda>d (k, v). dict_set k v d) [] ps"

definition head :: "nat \<Rightarrow> dataset \<Rightarrow> dataset" where
  \<comment> \<open>\<open>df.head(n)\<close>\<close>
  "head n d =
     \<lparr>df_index = take n (df_index d),
      df_columns = map (\<lambda>(name, dtype, cells). (name, dtype, take n cells)) (df_columns d)\<rparr>"

record df_info =
  shape :: "nat \<times> nat"
  columns :: "string list"
  dtypes :: "(string \<times> string) list"
  sample :: "(string \<times> (string \<times> string) list) list"

definition frame_to_dict :: "dataset \<Rightarrow> (string \<times> (string \<times> string) list) list" where
  \<comment> \<open>\<open>df.to_dict()\<close>: column label to (row label to cell)\<close>
  "frame_to_dict d =
     to_dict (map (\<lambda>(name, dtype, cells). (name, to_dict (zip (df_index d) cells))) (df_columns d))"

definition info_of :: "dataset \<Rightarrow> df_info" where
  "info_of d =
     \<lparr>shape = (length (df_index d), length (df_columns d)),
      columns = map fst (df_columns d),
      dtypes = to_dict (map (\<lambda>(name, dtype, cells). (name, dtype)) (df_columns d)),
      sample = frame_to_dict (head 3 d)\<rparr>"

definition get_dataframe_info :: "(df_info \<Rightarrow> string) \<Rightarrow> dataset \<Rightarrow> world \<Rightarrow> string \<times> world" where
  \<comment> \<open>the first argument is Python's \<open>str\<close> on the info dictionary\<close>
  "get_dataframe_info py_str d w = (py_str (info_of d), w)"

section \<open>Main app\<close>

datatype turn_end =
    Recorded            \<comment> \<open>the assistant's entry was appended\<close>
  | Aborted string      \<comment> \<open>an exception left the script\<close>
  | Hung                \<comment> \<open>the script never finished\<close>
  | Idle                \<comment> \<open>no prompt was submitted\<close>
  | Onboarding          \<comment> \<open>the welcome page was shown instead of the chat\<close>

definition render_message :: "message \<Rightarrow> world \<Rightarrow> string + world" where
  \<comment> \<open>lines 245 to 258\<close>
  "render_message m w =
     (if m_role m = ''user'' then Inr (st_write (case m_content m of None \<Rightarrow> [] | Some c \<Rightarrow> c) w)
      else
        (case (case m_result m of
                 None \<Rightarrow> Inr w
               | Some r \<Rightarrow> if r \<noteq> PyNone then st_dataframe r (st_write ''**Result:**'' w) else Inr w) of
           Inl e \<Rightarrow> Inl e
         | Inr w1 \<Rightarrow>
             (case (case m_figure m of
                      None \<Rightarrow> Inr w1
                    | Some f \<Rightarrow> if f \<noteq> PyNone then st_plotly_chart f w1 else Inr w1) of
                Inl e \<Rightarrow> Inl e
              | Inr w2 \<Rightarrow>
                  (let w3 = (case m_code m of
                               None \<Rightarrow> w2
                             | Some c \<Rightarrow> st_code c (st_write ''**Generated Code:**'' w2))
                   in Inr (case m_error m of None \<Rightarrow> w3 | Some e \<Rightarrow> st_error e w3)))))"

fun render_history :: "message list \<Rightarrow> world \<Rightarrow> string + world" where
  \<comment> \<open>the loop of line 244: the first exception ends it\<close>
  "render_history [] w = Inr w"
| "render_history (m # ms) w =
     (case render_message m w of Inl e \<Rightarrow> Inl e | Inr w1 \<Rightarrow> render_history ms w1)"

definition empty_message :: "string \<Rightarrow> message" where
  "empty_message r =
     \<lparr>m_role = r, m_content = None, m_code = None, m_result = None, m_figure = None, m_error = None\<rparr>"

definition append_message :: "message \<Rightarrow> world \<Rightarrow> world" where
  "append_message m w = w\<lparr>messages := messages w @ [m]\<rparr>"

definition record_response ::
  "int \<Rightarrow> string \<Rightarrow> pyval \<Rightarrow> pyval \<Rightarrow> world \<Rightarrow> turn_end \<times> world" where
  \<comment> \<open>lines 278 to 291: an exception of \<open>st.dataframe\<close> or \<open>st.plotly_chart\<close> leaves the script
      before the entry is appended\<close>
  "record_response classification code result fig w =
     (let response_data = (empty_message ''assistant'')\<lparr>m_code := Some code\<rparr>
      in if classification = 1 \<and> result \<noteq> PyNone then
           (case st_dataframe result (st_write ''**Result:**'' w) of
              Inl e \<Rightarrow> (Aborted e, st_write ''**Result:**'' w)
            | Inr w1 \<Rightarrow> (Recorded, append_message (response_data\<lparr>m_result := Some result\<rparr>) w1))
         else if classification = 0 \<and> fig \<noteq> PyNone then
           (case st_plotly_chart fig w of
              Inl e \<Rightarrow> (Aborted e, w)
            | Inr w1 \<Rightarrow> (Recorded, append_message (response_data\<lparr>m_figure := Some fig\<rparr>) w1))
         else
           (Recorded,
            append_message
              (response_data\<lparr>m_error := Some ''No result generated. Please try rephrasing your request.''\<rparr>)
              (st_error ''No result generated. Please try rephrasing your request.'' w)))"

definition chat_turn ::
  "interp \<Rightarrow> (df_info \<Rightarrow> string) \<Rightarrow> string \<Rightarrow> dataset \<Rightarrow> world \<Rightarrow> turn_end \<times> world" where
  \<comment> \<open>lines 261 to 298\<close>
  "chat_turn py py_str prompt d w =
     (let w1 = st_write prompt (append_message ((empty_message ''user'')\<lparr>m_content := Some prompt\<rparr>) w)
      in case get_dataframe_info py_str d w1 of
        (info, w2) \<Rightarrow>
          (case classify_prompt prompt info w2 of
             (classification, w3) \<Rightarrow>
               (let w4 = st_write (''**Classification:** ''
                            @ (if classification = 1 then ''Data Query'' else ''Visualization'')) w3
                in case generate_code prompt info classification w4 of
                  (None, w5) \<Rightarrow>
                    (Recorded,
                     append_message
                       ((empty_message ''assistant'')\<lparr>m_error := Some ''Failed to generate code. Please try again.''\<rparr>)
                       (st_error ''Failed to generate code. Please try again.'' w5))
                | (Some code, w5) \<Rightarrow>
                    (if code = [] then
                       (Recorded,
                        append_message
                          ((empty_message ''assistant'')\<lparr>m_error := Some ''Failed to generate code. Please try again.''\<rparr>)
                          (st_error ''Failed to generate code. Please try again.'' w5))
                     else
                       (case execute_code py code d (st_code code (st_write ''**Generated Code:**'' w5)) of
                          (Return (result, fig), d', w6) \<Rightarrow>
                            record_response classification code result fig (w6\<lparr>df := Some d'\<rparr>)
                        | (Propagate e, d', w6) \<Rightarrow> (Aborted e, w6\<lparr>df := Some d'\<rparr>)
                        | (NoReturn, d', w6) \<Rightarrow> (Hung, w6\<lparr>df := Some d'\<rparr>))))))"

definition main_app ::
  "interp \<Rightarrow> (df_info \<Rightarrow> string) \<Rightarrow> string option \<Rightarrow> world \<Rightarrow> turn_end \<times> world" where
  \<comment> \<open>lines 241 to 325; the third argument is what \<open>st.chat_input\<close> would return\<close>
  "main_app py py_str chat_input w =
     (case df w of
        Some d \<Rightarrow>
          (if groq_api_key w \<noteq> [] then
             (case render_history (messages w) w of
                Inl e \<Rightarrow> (Aborted e, w)
              | Inr w1 \<Rightarrow>
                  (case chat_input of
                     None \<Rightarrow> (Idle, w1)
                   | Some prompt \<Rightarrow>
                       if prompt = [] then (Idle, w1) else chat_turn py py_str prompt d w1))
           else (Onboarding, w\<lparr>ui := ui w @ [UiWelcome]\<rparr>))
      | None \<Rightarrow> (Onboarding, w\<lparr>ui := ui w @ [UiWelcome]\<rparr>))"

section \<open>The extraction rule\<close>

text \<open>
  What the code computes, told as a scan: \<open>before\<close> and \<open>after\<close> are the text on
  either side of the first occurrence of a separator, and \<open>between\<close> is the text that
  follows the first occurrence of an opening text, up to the next occurrence of that
  text or of three backquotes, trimmed.
\<close>

fun before :: "string \<Rightarrow> string \<Rightarrow> string" where
  "before sep [] = []"
| "before sep (c # cs) = (if sep \<noteq> [] \<and> starts_with sep (c # cs) then [] else c # before sep cs)"

fun after :: "string \<Rightarrow> string \<Rightarrow> string" where
  "after sep [] = []"
| "after sep (c # cs) =
     (if sep \<noteq> [] \<and> starts_with sep (c # cs) then drop (length sep) (c # cs) else after sep cs)"

definition between :: "string \<Rightarrow> string \<Rightarrow> string" where
  "between opening raw = strip (before ''```'' (before opening (after opening raw)))"

definition scan_extract :: "string \<Rightarrow> string" where
  "scan_extract raw =
     (if contains ''```python'' raw then between ''```python'' raw
      else if contains ''```'' raw then between ''```'' raw
      else raw)"

text \<open>
  The rule in the words of the specification. The fences cut the text into pieces, every
  second of which is a fenced block. The rest of a block's opening line is its language
  tag (a generic block has none) and the lines after it are its content. A tagged block
  is preferred, then the first block, then the whole text.
\<close>

fun odd_items :: "'a list \<Rightarrow> 'a list" where
  "odd_items (a # b # rest) = b # odd_items rest"
| "odd_items rest = []"

definition fenced_blocks :: "string \<Rightarrow> (string \<times> string) list" where
  \<comment> \<open>the blocks in order, each as its tag and its content, both trimmed\<close>
  "fenced_blocks raw =
     map (\<lambda>piece. (strip (takeWhile (\<lambda>c. c \<noteq> CHR ''\<newline>'') piece),
                   strip (dropWhile (\<lambda>c. c \<noteq> CHR ''\<newline>'') piece)))
       (odd_items (split ''```'' raw))"

definition spec_extract :: "string \<Rightarrow> string" where
  "spec_extract raw =
     (case filter (\<lambda>(tag, content). tag \<noteq> []) (fenced_blocks raw) of
        (tag, content) # others \<Rightarrow> content
      | [] \<Rightarrow> (case fenced_blocks raw of (tag, content) # others \<Rightarrow> content | [] \<Rightarrow> raw))"

section \<open>Notions used by the properties\<close>

definition captured_err :: "exec_outcome \<Rightarrow> string" where
  "captured_err r = (case r of Finished s \<Rightarrow> err s | Raised e s \<Rightarrow> err s | Hangs \<Rightarrow> [])"

definition keeps_frame :: "dataset \<Rightarrow> exec_outcome \<Rightarrow> bool" where
  "keeps_frame d r = (case r of Finished s \<Rightarrow> frame s = d | Raised e s \<Rightarrow> frame s = d | Hangs \<Rightarrow> True)"

definition caught :: "exec_outcome \<Rightarrow> bool" where
  "caught r = (case r of Finished s \<Rightarrow> True | Raised (Exc tb) s \<Rightarrow> True | Raised (BaseExc n) s \<Rightarrow> False | Hangs \<Rightarrow> False)"




definition user_entry :: "string \<Rightarrow> message" where
  "user_entry prompt = (empty_message ''user'')\<lparr>m_content := Some prompt\<rparr>"

definition failed_to_generate :: message where
  "failed_to_generate =
     (empty_message ''assistant'')\<lparr>m_error := Some ''Failed to generate code. Please try again.''\<rparr>"


definition same_session :: "world \<Rightarrow> world \<Rightarrow> bool" where
  "same_session w w' =
     (messages w' = messages w \<and> df w' = df w \<and> groq_api_key w' = groq_api_key w
      \<and> groq_client w' = groq_client w \<and> today w' = today w \<and> shared w' = shared w)"

section \<open>A sample session\<close>

text \<open>
  A small dataset, a client with canned completions, and an interpreter for the few
  snippets used below; only these are run. Each line of \<open>demo_exec\<close> gives what Python
  does with that snippet: \<open>df.head(2)\<close> builds a new frame, \<open>len(df)\<close> is the number
  of rows, \<open>px.bar\<close> with a column for each axis builds a figure,
  \<open>df.drop(df.index, inplace=True)\<close> removes every row of the object itself,
  \<open>sys.stderr.write\<close> appends to the redirected buffer and \<open>sys.stderr.close\<close> closes
  it, an assignment to an attribute of \<open>builtins\<close> adds a name to that module, a name
  is looked up in the globals and then in the builtins, and \<open>raise SystemExit\<close> raises
  an exception that is not an \<open>Exception\<close>. The traceback texts are shortened.
\<close>

definition demo_df :: dataset where
  "demo_df =
     \<lparr>df_index = [''0'', ''1'', ''2'', ''3''],
      df_columns = [(''Lot ID'', ''object'', [''A'', ''A'', ''B'', ''B'']),
                    (''Labels Readable'', ''int64'', [''1'', ''0'', ''1'', ''1''])]\<rparr>"

definition demo_exec :: interp where
  "demo_exec code s =
     (if code = ''result = df.head(2)'' then
        Finished (s\<lparr>globals := (globals s)(''result'' \<mapsto> PyFrame (head 2 (frame s)))\<rparr>)
      else if code = ''result = len(df)'' then
        Finished (s\<lparr>globals := (globals s)(''result'' \<mapsto> PyInt (int (length (df_index (frame s)))))\<rparr>)
      else if code = ''fig = px.bar(df, x=df.columns[0], y=df.columns[1])'' then
        Finished (s\<lparr>globals := (globals s)(''fig'' \<mapsto> PyFigure ''bar'')\<rparr>)
      else if code = ''import builtins; builtins.x = 41'' then
        Finished (s\<lparr>globals := (globals s)(''builtins'' \<mapsto> PyModule ''builtins''),
                     builtins := (builtins s)(''x'' \<mapsto> PyInt 41)\<rparr>)
      else if code = ''result = x'' then
        (case globals s ''x'' of
           Some v \<Rightarrow> Finished (s\<lparr>globals := (globals s)(''result'' \<mapsto> v)\<rparr>)
         | None \<Rightarrow>
             (case builtins s ''x'' of
                Some v \<Rightarrow> Finished (s\<lparr>globals := (globals s)(''result'' \<mapsto> v)\<rparr>)
              | None \<Rightarrow> Raised (Exc ''Traceback (most recent call last): NameError: name x is not defined'') s))
      else if code = ''import sys; sys.stderr.write(str(1)); sys.stderr.close()'' then
        Finished (s\<lparr>globals := (globals s)(''sys'' \<mapsto> PyModule ''sys''), err := err s @ ''1'',
                     err_closed := True\<rparr>)
      else if code = ''x = 1'' then
        Finished (s\<lparr>globals := (globals s)(''x'' \<mapsto> PyInt 1)\<rparr>)
      else if code = ''df.drop(df.index, inplace=True)'' then
        Finished (s\<lparr>frame := head 0 (frame s)\<rparr>)
      else if code = ''import sys; sys.stderr.write(str(1)); result = 1'' then
        Finished (s\<lparr>globals := (globals s)(''sys'' \<mapsto> PyModule ''sys'', ''result'' \<mapsto> PyInt 1),
                     err := err s @ ''1''\<rparr>)
      else if code = ''import sys; sys.stderr.write(str(1)); raise ValueError(1)'' then
        Raised (Exc ''Traceback (most recent call last): ValueError: 1'')
          (s\<lparr>globals := (globals s)(''sys'' \<mapsto> PyModule ''sys''), err := err s @ ''1''\<rparr>)
      else if code = ''raise SystemExit'' then Raised (BaseExc ''SystemExit'') s
      else if code = ''while True: pass'' then Hangs
      else Raised (Exc ''SyntaxError: invalid syntax'') s)"

definition demo_client :: client where
  "demo_client req =
     (case req of
        ClassifyRequest t i p \<Rightarrow>
          (if p = ''Show me the first 2 rows'' then GwCompletion [Some '' 1\<newline>'']
           else if p = ''Plot the lots'' then GwCompletion [Some ''0'']
           else if p = ''Define x'' then GwCompletion [Some ''1'']
           else if p = ''Say nothing'' then GwCompletion [Some ''1'']
           else if p = ''Count the rows'' then GwCompletion [Some ''1'']
           else if p = ''List the lots'' then GwCompletion [Some ''1'']
           else if p = ''Rate the lots'' then GwCompletion [Some ''10'']
           else if p = ''Tell me a joke'' then GwCompletion [Some ''I cannot classify this.'']
           else GwRaises ''Request timed out.'')
      | QueryCodeRequest i p \<Rightarrow>
          (if p = ''Show me the first 2 rows''
           then GwCompletion [Some ''Here you go:\<newline>```python\<newline>result = df.head(2)\<newline>```\<newline>Done.'']
           else if p = ''Define x'' then GwCompletion [Some ''x = 1'']
           else if p = ''Say nothing'' then GwCompletion [Some ''```python\<newline>```'']
           else if p = ''Count the rows'' then GwCompletion [Some ''result = len(df)'']
           else if p = ''List the lots''
           then GwCompletion [Some ''```py\<newline>result = df.head(2)\<newline>```'']
           else GwRaises ''Request timed out.'')
      | ChartCodeRequest p \<Rightarrow>
          (if p = ''Plot the lots''
           then GwCompletion [Some ''```\<newline>fig = px.bar(df, x=df.columns[0], y=df.columns[1])\<newline>```'']
           else GwRaises ''Request timed out.''))"

definition demo_str :: "df_info \<Rightarrow> string" where
  \<comment> \<open>a stand-in for \<open>str\<close> that lists the column labels only\<close>
  "demo_str i = concat (map (\<lambda>c. c @ '' '') (columns i))"

definition demo_world :: world where
  "demo_world =
     \<lparr>messages = [], df = Some demo_df, groq_api_key = ''gsk_demo'', groq_client = Some demo_client,
      today = ''2025-01-01'', ui = [], gw_log = [], exec_log = [], shared = Map.empty\<rparr>"

definition demo_df_other :: dataset where
  \<comment> \<open>\<open>demo_df\<close> with another fourth row\<close>
  "demo_df_other =
     \<lparr>df_index = [''0'', ''1'', ''2'', ''3''],
      df_columns = [(''Lot ID'', ''object'', [''A'', ''A'', ''B'', ''C'']),
                    (''Labels Readable'', ''int64'', [''1'', ''0'', ''1'', ''0''])]\<rparr>"

section \<open>Lemmas\<close>

lemma py_int_one: "py_int ''1'' = Some 1"
  by (simp add: py_int_def strip_def is_space_def parse_literal_def is_digit_def digit_value_def)

lemma py_int_zero: "py_int ''0'' = Some 0"
  by (simp add: py_int_def strip_def is_space_def parse_literal_def is_digit_def digit_value_def)

lemma py_split_unfold:
  "sep \<noteq> [] \<Longrightarrow>
   py_split sep acc s =
     (rev acc @ before sep s) # (if contains sep s then py_split sep [] (after sep s) else [])"
proof (induction s arbitrary: acc)
  case Nil
  then show ?case by simp
next
  case (Cons c cs)
  show ?case
  proof (cases "starts_with sep (c # cs)")
    case True
    with Cons.prems show ?thesis by simp
  next
    case False
    with Cons.prems Cons.IH [of "c # acc"] show ?thesis by simp
  qed
qed

lemma split_first:
  assumes "sep \<noteq> []"
  shows "item (split sep s) 0 = Inr (before sep s)"
proof -
  have "py_split sep [] s = before sep s # (if contains sep s then py_split sep [] (after sep s) else [])"
    using assms py_split_unfold [of sep "[]" s] by simp
  then show ?thesis by (simp add: split_def item_def)
qed

lemma split_second:
  assumes "sep \<noteq> []" and "contains sep s"
  shows "item (split sep s) 1 = Inr (before sep (after sep s))"
proof -
  have "py_split sep [] s = before sep s # py_split sep [] (after sep s)"
    using assms by (subst py_split_unfold) simp_all
  also have "py_split sep [] (after sep s) =
      before sep (after sep s) # (if contains sep (after sep s) then py_split sep [] (after sep (after sep s)) else [])"
    using assms(1) by (subst py_split_unfold) simp_all
  finally show ?thesis by (simp add: split_def item_def)
qed

lemma starts_with_append: "starts_with p a \<Longrightarrow> starts_with p (a @ r)"
  by (induction p a rule: starts_with.induct) auto

lemma before_is_prefix: "\<exists>r. s = before sep s @ r"
  by (induction s) auto

lemma starts_with_before: "starts_with p (c # before sep cs) \<Longrightarrow> starts_with p (c # cs)"
proof -
  obtain r where r: "cs = before sep cs @ r" using before_is_prefix by blast
  assume "starts_with p (c # before sep cs)"
  then have "starts_with p ((c # before sep cs) @ r)" by (rule starts_with_append)
  with r show ?thesis by simp
qed

lemma before_idem: "before sep (before sep s) = before sep s"
proof (induction s)
  case Nil
  show ?case by simp
next
  case (Cons c cs)
  then show ?case using starts_with_before [of sep c sep cs] by auto
qed

lemma extract_code_rule: "extract_code raw = Inr (scan_extract raw)"
proof -
  have tagged: "contains ''```python'' raw \<Longrightarrow>
      item (split ''```python'' raw) (Suc 0) = Inr (before ''```python'' (after ''```python'' raw))"
    using split_second [of "''```python''" raw] by simp
  have generic: "contains ''```'' raw \<Longrightarrow>
      item (split ''```'' raw) (Suc 0) = Inr (before ''```'' (after ''```'' raw))"
    using split_second [of "''```''" raw] by simp
  have first: "item (split ''```'' a) 0 = Inr (before ''```'' a)" for a
    by (rule split_first) simp
  show ?thesis
    by (simp add: extract_code_def scan_extract_def between_def tagged generic first before_idem)
qed

lemma classify_frame:
  "same_session w (snd (classify_prompt p i w)) \<and> exec_log (snd (classify_prompt p i w)) = exec_log w"
  by (simp add: classify_prompt_def create_def st_error_def same_session_def
      split: option.splits sum.splits prod.splits)

lemma classify_indep:
  "groq_client w' = groq_client w \<Longrightarrow> today w' = today w \<Longrightarrow>
   fst (classify_prompt p i w') = fst (classify_prompt p i w)"
  by (simp add: classify_prompt_def create_def split: option.splits sum.splits prod.splits)

lemma generate_frame:
  "same_session w (snd (generate_code p i c w)) \<and> exec_log (snd (generate_code p i c w)) = exec_log w"
  by (simp add: generate_code_def create_def st_error_def same_session_def Let_def
      split: option.splits sum.splits prod.splits)

lemma generate_indep:
  "groq_client w' = groq_client w \<Longrightarrow>
   fst (generate_code p i c w') = fst (generate_code p i c w)"
  by (simp add: generate_code_def create_def Let_def split: option.splits sum.splits prod.splits)




lemma same_session_trans: "same_session a b \<Longrightarrow> same_session b c \<Longrightarrow> same_session a c"
  by (simp add: same_session_def)

lemma chat_turn_eq:
  fixes py py_str prompt d w
  defines "info \<equiv> py_str (info_of d)"
  defines "c \<equiv> fst (classify_prompt prompt info w)"
  defines "g \<equiv> fst (generate_code prompt info c w)"
  shows "\<exists>w5. same_session (append_message (user_entry prompt) w) w5 \<and> exec_log w5 = exec_log w \<and>
     chat_turn py py_str prompt d w =
       (case g of
          None \<Rightarrow> (Recorded, append_message failed_to_generate
                      (st_error ''Failed to generate code. Please try again.'' w5))
        | Some code \<Rightarrow>
            if code = [] then
              (Recorded, append_message failed_to_generate
                 (st_error ''Failed to generate code. Please try again.'' w5))
            else
              (case execute_code py code d (st_code code (st_write ''**Generated Code:**'' w5)) of
                 (Return (result, fig), d', w6) \<Rightarrow>
                   record_response c code result fig (w6\<lparr>df := Some d'\<rparr>)
               | (Propagate e, d', w6) \<Rightarrow> (Aborted e, w6\<lparr>df := Some d'\<rparr>)
               | (NoReturn, d', w6) \<Rightarrow> (Hung, w6\<lparr>df := Some d'\<rparr>)))"
proof -
  define w0 where "w0 = append_message (user_entry prompt) w"
  define w1 where "w1 = st_write prompt w0"
  define w3 where "w3 = snd (classify_prompt prompt info w1)"
  define w4 where "w4 = st_write (''**Classification:** ''
                            @ (if c = 1 then ''Data Query'' else ''Visualization'')) w3"
  define w5 where "w5 = snd (generate_code prompt info c w4)"
  have s01: "same_session w0 w1" "exec_log w1 = exec_log w" "groq_client w1 = groq_client w" "today w1 = today w"
    by (simp_all add: w1_def w0_def st_write_def same_session_def append_message_def)
  have c1: "fst (classify_prompt prompt info w1) = c"
    unfolding c_def using s01 by (intro classify_indep) simp_all
  have s13: "same_session w1 w3" "exec_log w3 = exec_log w1"
    using classify_frame [of w1 prompt info] by (simp_all add: w3_def)
  have s34: "same_session w3 w4" "exec_log w4 = exec_log w3"
    by (simp_all add: w4_def st_write_def same_session_def)
  have gc4: "groq_client w4 = groq_client w"
    using s01 s13 s34 by (simp add: same_session_def)
  have g4: "fst (generate_code prompt info c w4) = g"
    unfolding g_def using gc4 by (rule generate_indep)
  have s45: "same_session w4 w5" "exec_log w5 = exec_log w4"
    using generate_frame [of w4 prompt info c] by (simp_all add: w5_def)
  have sess: "same_session w0 w5"
    using s01(1) s13(1) s34(1) s45(1) by (blast intro: same_session_trans)
  have log: "exec_log w5 = exec_log w"
    using s01(2) s13(2) s34(2) s45(2) by simp
  have cl: "classify_prompt prompt info w1 = (c, w3)"
    using c1 by (simp add: w3_def prod_eq_iff)
  have ge: "generate_code prompt info c w4 = (g, w5)"
    using g4 by (simp add: w5_def prod_eq_iff)
  have "chat_turn py py_str prompt d w =
       (case g of
          None \<Rightarrow> (Recorded, append_message failed_to_generate
                      (st_error ''Failed to generate code. Please try again.'' w5))
        | Some code \<Rightarrow>
            if code = [] then
              (Recorded, append_message failed_to_generate
                 (st_error ''Failed to generate code. Please try again.'' w5))
            else
              (case execute_code py code d (st_code code (st_write ''**Generated Code:**'' w5)) of
                 (Return (result, fig), d', w6) \<Rightarrow>
                   record_response c code result fig (w6\<lparr>df := Some d'\<rparr>)
               | (Propagate e, d', w6) \<Rightarrow> (Aborted e, w6\<lparr>df := Some d'\<rparr>)
               | (NoReturn, d', w6) \<Rightarrow> (Hung, w6\<lparr>df := Some d'\<rparr>)))"
    apply (unfold chat_turn_def get_dataframe_info_def Let_def prod.case)
    apply (fold user_entry_def failed_to_generate_def)
    apply (fold info_def)
    apply (fold w0_def)
    apply (fold w1_def)
    apply (simp only: cl prod.case)
    apply (fold w4_def)
    apply (simp only: ge prod.case)
    done
  with sess log show ?thesis unfolding w0_def by blast
qed

lemma dict_set_subset: "set (dict_set k v d) \<subseteq> insert (k, v) (set d)"
  by (induction d) (auto split: if_splits)

lemma to_dict_fold_subset:
  "set (foldl (\<lambda>d (k, v). dict_set k v d) acc ps) \<subseteq> set acc \<union> set ps"
proof (induction ps arbitrary: acc)
  case Nil
  show ?case by simp
next
  case (Cons p ps)
  obtain k v where p: "p = (k, v)" by (cases p)
  have "set (foldl (\<lambda>d (k, v). dict_set k v d) (dict_set k v acc) ps)
          \<subseteq> set (dict_set k v acc) \<union> set ps"
    by (rule Cons.IH)
  also have "\<dots> \<subseteq> insert (k, v) (set acc) \<union> set ps"
    using dict_set_subset [of k v acc] by auto
  finally show ?case by (auto simp: p)
qed

lemma to_dict_subset: "set (to_dict ps) \<subseteq> set ps"
  using to_dict_fold_subset [of "[]" ps] by (simp add: to_dict_def)

lemma dict_set_length: "length (dict_set k v d) \<le> Suc (length d)"
  by (induction d) auto

lemma to_dict_fold_length:
  "length (foldl (\<lambda>d (k, v). dict_set k v d) acc ps) \<le> length acc + length ps"
proof (induction ps arbitrary: acc)
  case Nil
  show ?case by simp
next
  case (Cons p ps)
  obtain k v where p: "p = (k, v)" by (cases p)
  have "length (foldl (\<lambda>d (k, v). dict_set k v d) (dict_set k v acc) ps)
          \<le> length (dict_set k v acc) + length ps"
    by (rule Cons.IH)
  also have "\<dots> \<le> Suc (length acc) + length ps"
    using dict_set_length [of k v acc] by simp
  finally show ?case by (simp add: p)
qed

lemma to_dict_length: "length (to_dict ps) \<le> length ps"
  using to_dict_fold_length [of "[]" ps] by (simp add: to_dict_def)

lemma sample_capped:
  assumes "(name, cells) \<in> set (sample (info_of d))"
  shows "length cells \<le> 3"
proof -
  from assms have "(name, cells) \<in> set (frame_to_dict (head 3 d))"
    by (simp add: info_of_def)
  then have "(name, cells) \<in> set (map (\<lambda>(name, dtype, cells). (name, to_dict (zip (df_index (head 3 d)) cells)))
                (df_columns (head 3 d)))"
    using to_dict_subset unfolding frame_to_dict_def by blast
  then obtain col where col: "cells = to_dict (zip (take 3 (df_index d)) col)"
    by (auto simp: head_def)
  have "length cells \<le> length (zip (take 3 (df_index d)) col)"
    unfolding col by (rule to_dict_length)
  also have "\<dots> \<le> 3" by simp
  finally show ?thesis .
qed

lemma head_labels:
  "map (\<lambda>(name, dtype, cells). (name, dtype)) (df_columns (head n d))
     = map (\<lambda>(name, dtype, cells). (name, dtype)) (df_columns d)"
  by (simp add: head_def case_prod_beta comp_def)

lemma info_of_head:
  "info_of d =
     \<lparr>shape = (length (df_index d), length (map (\<lambda>(name, dtype, cells). (name, dtype)) (df_columns (head 3 d)))),
      columns = map fst (map (\<lambda>(name, dtype, cells). (name, dtype)) (df_columns (head 3 d))),
      dtypes = to_dict (map (\<lambda>(name, dtype, cells). (name, dtype)) (df_columns (head 3 d))),
      sample = frame_to_dict (head 3 d)\<rparr>"
  unfolding head_labels by (simp add: info_of_def case_prod_beta comp_def)

lemma info_of_cong:
  assumes "head 3 d = head 3 d'" and "length (df_index d) = length (df_index d')"
  shows "info_of d = info_of d'"
  by (simp add: info_of_head [of d] info_of_head [of d'] assms)

section \<open>The claims\<close>



lemma scalar_result_aborts:
  "fst (chat_turn demo_exec demo_str ''Count the rows'' demo_df demo_world) = Aborted ''StreamlitAPIException''
   \<and> messages (snd (chat_turn demo_exec demo_str ''Count the rows'' demo_df demo_world))
       = [user_entry ''Count the rows'']"
  by code_simp

text \<open>
  Claim C2, as amended. \<open>classify_prompt\<close> reads the stripped completion with \<open>int\<close>
  and returns the integer read: 1 (query) for "1", 0 (visualization) for "0", and any
  other integer as it is. It returns the default 1 when no client is configured, when
  the gateway call raises, when the completion has no choice or no content, and when
  \<open>int\<close> rejects the stripped completion. It returns in every case: no exception
  leaves it.
\<close>

theorem classify_prompt_default:
  "(groq_client w = None \<longrightarrow> fst (classify_prompt prompt info w) = 1)
   \<and> (\<forall>cl e rest.
        groq_client w = Some cl
        \<and> (cl (ClassifyRequest (today w) info prompt) = GwRaises e
           \<or> cl (ClassifyRequest (today w) info prompt) = GwCompletion []
           \<or> cl (ClassifyRequest (today w) info prompt) = GwCompletion (None # rest))
        \<longrightarrow> fst (classify_prompt prompt info w) = 1)
   \<and> (\<forall>cl c rest.
        groq_client w = Some cl
        \<and> cl (ClassifyRequest (today w) info prompt) = GwCompletion (Some c # rest)
        \<longrightarrow> (py_int (strip c) = None \<longrightarrow> fst (classify_prompt prompt info w) = 1)
          \<and> (\<forall>n. py_int (strip c) = Some n \<longrightarrow> fst (classify_prompt prompt info w) = n)
          \<and> (strip c = ''1'' \<longrightarrow> fst (classify_prompt prompt info w) = 1)
          \<and> (strip c = ''0'' \<longrightarrow> fst (classify_prompt prompt info w) = 0))"
  using py_int_one py_int_zero
  by (auto simp: classify_prompt_def create_def first_content_def
      split: option.splits sum.splits list.splits)

theorem classify_prompt_default_witness:
  "groq_client (demo_world\<lparr>groq_client := None\<rparr>) = None
   \<and> fst (classify_prompt ''Plot the lots'' ''info'' (demo_world\<lparr>groq_client := None\<rparr>)) = 1
   \<and> demo_client (ClassifyRequest (today demo_world) ''info'' ''What is new'') = GwRaises ''Request timed out.''
   \<and> fst (classify_prompt ''What is new'' ''info'' demo_world) = 1
   \<and> demo_client (ClassifyRequest (today demo_world) ''info'' ''Show me the first 2 rows'')
       = GwCompletion [Some '' 1\<newline>'']
   \<and> strip '' 1\<newline>'' = ''1''
   \<and> py_int (strip '' 1\<newline>'') = Some 1
   \<and> fst (classify_prompt ''Show me the first 2 rows'' ''info'' demo_world) = 1
   \<and> demo_client (ClassifyRequest (today demo_world) ''info'' ''Plot the lots'') = GwCompletion [Some ''0'']
   \<and> fst (classify_prompt ''Plot the lots'' ''info'' demo_world) = 0
   \<and> demo_client (ClassifyRequest (today demo_world) ''info'' ''Tell me a joke'')
       = GwCompletion [Some ''I cannot classify this.'']
   \<and> py_int (strip ''I cannot classify this.'') = None
   \<and> fst (classify_prompt ''Tell me a joke'' ''info'' demo_world) = 1"
proof -
  have a: "groq_client (demo_world\<lparr>groq_client := None\<rparr>) = None" by simp
  have b: "groq_client demo_world = Some demo_client" by (simp add: demo_world_def)
  have r: "demo_client (ClassifyRequest (today demo_world) ''info'' ''What is new'')
      = GwRaises ''Request timed out.''"
    by code_simp
  have one: "demo_client (ClassifyRequest (today demo_world) ''info'' ''Show me the first 2 rows'')
       = GwCompletion [Some '' 1\<newline>'']"
    by code_simp
  have one': "strip '' 1\<newline>'' = ''1''" by code_simp
  have one'': "py_int (strip '' 1\<newline>'') = Some 1" by code_simp
  have zero: "demo_client (ClassifyRequest (today demo_world) ''info'' ''Plot the lots'')
       = GwCompletion [Some ''0'']"
    by code_simp
  have zero': "strip ''0'' = ''0''" by code_simp
  have bad: "demo_client (ClassifyRequest (today demo_world) ''info'' ''Tell me a joke'')
       = GwCompletion [Some ''I cannot classify this.'']"
    by code_simp
  have bad': "py_int (strip ''I cannot classify this.'') = None" by code_simp
  have "fst (classify_prompt ''Plot the lots'' ''info'' (demo_world\<lparr>groq_client := None\<rparr>)) = 1"
    using classify_prompt_default [of "demo_world\<lparr>groq_client := None\<rparr>" "''Plot the lots''" "''info''"] a
    by blast
  moreover have "fst (classify_prompt ''What is new'' ''info'' demo_world) = 1"
    using classify_prompt_default [of demo_world "''What is new''" "''info''"] b r by blast
  moreover have "fst (classify_prompt ''Show me the first 2 rows'' ''info'' demo_world) = 1"
    using classify_prompt_default [of demo_world "''Show me the first 2 rows''" "''info''"] b one one''
    by blast
  moreover have "fst (classify_prompt ''Plot the lots'' ''info'' demo_world) = 0"
    using classify_prompt_default [of demo_world "''Plot the lots''" "''info''"] b zero zero' by blast
  moreover have "fst (classify_prompt ''Tell me a joke'' ''info'' demo_world) = 1"
    using classify_prompt_default [of demo_world "''Tell me a joke''" "''info''"] b bad bad' by blast
  ultimately show ?thesis
    using a r one one' one'' zero bad bad' by simp
qed

theorem classify_other_integer_counterexample:
  "demo_client (ClassifyRequest (today demo_world) ''info'' ''Rate the lots'') = GwCompletion [Some ''10'']
   \<and> fst (classify_prompt ''Rate the lots'' ''info'' demo_world) = 10"
  by code_simp

text \<open>
  Claim C3, as amended. With \<open>raw\<close> the trimmed completion text: when \<open>raw\<close> holds
  three backquotes followed by \<open>python\<close>, \<open>generate_code\<close> returns the trimmed text
  between the first such place and the next three backquotes; otherwise, when it
  holds three backquotes at all, the trimmed text between the first and the second of
  them, a language tag other than \<open>python\<close> included; otherwise \<open>raw\<close> itself.
\<close>

theorem generate_code_extraction:
  assumes "groq_client w = Some cl"
    and "cl (if classification = 1 then QueryCodeRequest info prompt else ChartCodeRequest prompt)
           = GwCompletion (Some content # rest)"
    and "raw = strip content"
  shows "(contains ''```python'' raw \<longrightarrow>
            fst (generate_code prompt info classification w) = Some (between ''```python'' raw))
    \<and> (\<not> contains ''```python'' raw \<and> contains ''```'' raw \<longrightarrow>
            fst (generate_code prompt info classification w) = Some (between ''```'' raw))
    \<and> (\<not> contains ''```python'' raw \<and> \<not> contains ''```'' raw \<longrightarrow>
            fst (generate_code prompt info classification w) = Some raw)"
proof -
  have "fst (generate_code prompt info classification w) = Some (scan_extract raw)"
    using assms
    by (simp add: generate_code_def create_def first_content_def extract_code_rule Let_def)
  then show ?thesis by (simp add: scan_extract_def)
qed

theorem generate_code_extraction_witness:
  "contains ''```python'' (strip ''Here you go:\<newline>```python\<newline>result = df.head(2)\<newline>```\<newline>Done.'')
   \<and> fst (generate_code ''Show me the first 2 rows'' ''info'' 1 demo_world) = Some ''result = df.head(2)''
   \<and> \<not> contains ''```python'' (strip ''```\<newline>fig = px.bar(df, x=df.columns[0], y=df.columns[1])\<newline>```'')
   \<and> contains ''```'' (strip ''```\<newline>fig = px.bar(df, x=df.columns[0], y=df.columns[1])\<newline>```'')
   \<and> fst (generate_code ''Plot the lots'' ''info'' 0 demo_world) = Some ''fig = px.bar(df, x=df.columns[0], y=df.columns[1])''
   \<and> \<not> contains ''```'' (strip ''x = 1'')
   \<and> fst (generate_code ''Define x'' ''info'' 1 demo_world) = Some ''x = 1''"
proof -
  have cl: "groq_client demo_world = Some demo_client" by (simp add: demo_world_def)
  have r1: "demo_client (if (1::int) = 1 then QueryCodeRequest ''info'' ''Show me the first 2 rows''
                         else ChartCodeRequest ''Show me the first 2 rows'')
      = GwCompletion [Some ''Here you go:\<newline>```python\<newline>result = df.head(2)\<newline>```\<newline>Done.'']"
    by code_simp
  have r2: "demo_client (if (0::int) = 1 then QueryCodeRequest ''info'' ''Plot the lots''
                         else ChartCodeRequest ''Plot the lots'')
      = GwCompletion [Some ''```\<newline>fig = px.bar(df, x=df.columns[0], y=df.columns[1])\<newline>```'']"
    by code_simp
  have r3: "demo_client (if (1::int) = 1 then QueryCodeRequest ''info'' ''Define x''
                         else ChartCodeRequest ''Define x'')
      = GwCompletion [Some ''x = 1'']"
    by code_simp
  have c1: "contains ''```python'' (strip ''Here you go:\<newline>```python\<newline>result = df.head(2)\<newline>```\<newline>Done.'')"
    by code_simp
  have b1: "between ''```python'' (strip ''Here you go:\<newline>```python\<newline>result = df.head(2)\<newline>```\<newline>Done.'')
      = ''result = df.head(2)''"
    by code_simp
  have c2: "\<not> contains ''```python'' (strip ''```\<newline>fig = px.bar(df, x=df.columns[0], y=df.columns[1])\<newline>```'')"
    "contains ''```'' (strip ''```\<newline>fig = px.bar(df, x=df.columns[0], y=df.columns[1])\<newline>```'')"
    by code_simp+
  have b2: "between ''```'' (strip ''```\<newline>fig = px.bar(df, x=df.columns[0], y=df.columns[1])\<newline>```'') = ''fig = px.bar(df, x=df.columns[0], y=df.columns[1])''"
    by code_simp
  have c3: "\<not> contains ''```python'' (strip ''x = 1'')" "\<not> contains ''```'' (strip ''x = 1'')"
    "strip ''x = 1'' = ''x = 1''"
    by code_simp+
  show ?thesis
    using generate_code_extraction [OF cl r1 refl] generate_code_extraction [OF cl r2 refl]
      generate_code_extraction [OF cl r3 refl] c1 b1 c2 b2 c3
    by simp
qed

theorem tagged_fence_counterexample:
  "demo_client (QueryCodeRequest ''info'' ''List the lots'')
     = GwCompletion [Some ''```py\<newline>result = df.head(2)\<newline>```'']
   \<and> fenced_blocks (strip ''```py\<newline>result = df.head(2)\<newline>```'') = [(''py'', ''result = df.head(2)'')]
   \<and> spec_extract (strip ''```py\<newline>result = df.head(2)\<newline>```'') = ''result = df.head(2)''
   \<and> fst (generate_code ''List the lots'' ''info'' 1 demo_world) = Some ''py\<newline>result = df.head(2)''"
  by code_simp

text \<open>
  Claim C4, as amended. When the captured standard-error buffer is not empty,
  \<open>execute_code\<close> returns \<open>(None, None)\<close> whenever it returns at all. When the snippet
  ran to its end without raising and left the buffer open, the error shown is
  "Execution error: " followed by the buffer contents, whatever the snippet bound to
  \<open>result\<close> or \<open>fig\<close>. When the snippet raised an \<open>Exception\<close>, the error shown is its
  traceback instead, and when the snippet closed the buffer, the traceback of the failed
  read.
\<close>

theorem execute_code_stderr:
  assumes "captured_err (py code (exec_context d (shared w))) \<noteq> []"
  shows "(caught (py code (exec_context d (shared w))) \<longrightarrow>
            fst (execute_code py code d w) = Return (PyNone, PyNone))
    \<and> (\<forall>s. py code (exec_context d (shared w)) = Finished s \<and> \<not> err_closed s \<longrightarrow>
            ui (snd (snd (execute_code py code d w)))
              = ui w @ [UiError (''Execution error: '' @ err s)])
    \<and> (\<forall>s. py code (exec_context d (shared w)) = Finished s \<and> err_closed s \<longrightarrow>
            ui (snd (snd (execute_code py code d w)))
              = ui w @ [UiError (''Code execution failed:\<newline>```\<newline>'' @ closed_file_traceback @ ''\<newline>```'')])
    \<and> (\<forall>tb s. py code (exec_context d (shared w)) = Raised (Exc tb) s \<longrightarrow>
            ui (snd (snd (execute_code py code d w)))
              = ui w @ [UiError (''Code execution failed:\<newline>```\<newline>'' @ tb @ ''\<newline>```'')])"
  using assms
  by (auto simp: captured_err_def caught_def execute_code_def Let_def st_error_def
      split: exec_outcome.splits py_exc.splits)

theorem execute_code_stderr_witness:
  "captured_err (demo_exec ''import sys; sys.stderr.write(str(1)); result = 1''
      (exec_context demo_df (shared demo_world))) = ''1''
   \<and> caught (demo_exec ''import sys; sys.stderr.write(str(1)); result = 1''
      (exec_context demo_df (shared demo_world)))
   \<and> (\<exists>s. demo_exec ''import sys; sys.stderr.write(str(1)); result = 1''
            (exec_context demo_df (shared demo_world)) = Finished s
          \<and> \<not> err_closed s \<and> err s = ''1'' \<and> globals s ''result'' = Some (PyInt 1))
   \<and> fst (execute_code demo_exec ''import sys; sys.stderr.write(str(1)); result = 1'' demo_df demo_world)
       = Return (PyNone, PyNone)
   \<and> ui (snd (snd (execute_code demo_exec ''import sys; sys.stderr.write(str(1)); result = 1'' demo_df demo_world)))
       = ui demo_world @ [UiError ''Execution error: 1'']
   \<and> captured_err (demo_exec ''import sys; sys.stderr.write(str(1)); sys.stderr.close()''
      (exec_context demo_df (shared demo_world))) = ''1''
   \<and> (\<exists>s. demo_exec ''import sys; sys.stderr.write(str(1)); sys.stderr.close()''
            (exec_context demo_df (shared demo_world)) = Finished s \<and> err_closed s)
   \<and> ui (snd (snd (execute_code demo_exec ''import sys; sys.stderr.write(str(1)); sys.stderr.close()'' demo_df demo_world)))
       = ui demo_world @ [UiError (''Code execution failed:\<newline>```\<newline>'' @ closed_file_traceback @ ''\<newline>```'')]
   \<and> captured_err (demo_exec ''import sys; sys.stderr.write(str(1)); raise ValueError(1)''
      (exec_context demo_df (shared demo_world))) = ''1''
   \<and> (\<exists>s. demo_exec ''import sys; sys.stderr.write(str(1)); raise ValueError(1)''
            (exec_context demo_df (shared demo_world))
          = Raised (Exc ''Traceback (most recent call last): ValueError: 1'') s)
   \<and> ui (snd (snd (execute_code demo_exec ''import sys; sys.stderr.write(str(1)); raise ValueError(1)'' demo_df demo_world)))
       = ui demo_world
         @ [UiError (''Code execution failed:\<newline>```\<newline>'' @ ''Traceback (most recent call last): ValueError: 1'' @ ''\<newline>```'')]"
proof -
  obtain s1 where run1: "demo_exec ''import sys; sys.stderr.write(str(1)); result = 1''
            (exec_context demo_df (shared demo_world)) = Finished s1"
    and s1: "\<not> err_closed s1" "err s1 = ''1''" "globals s1 ''result'' = Some (PyInt 1)"
    by (simp add: demo_exec_def exec_context_def)
  obtain s2 where run2: "demo_exec ''import sys; sys.stderr.write(str(1)); sys.stderr.close()''
            (exec_context demo_df (shared demo_world)) = Finished s2"
    and s2: "err_closed s2" "err s2 = ''1''"
    by (simp add: demo_exec_def exec_context_def)
  obtain s3 where run3: "demo_exec ''import sys; sys.stderr.write(str(1)); raise ValueError(1)''
            (exec_context demo_df (shared demo_world))
          = Raised (Exc ''Traceback (most recent call last): ValueError: 1'') s3"
    and s3: "err s3 = ''1''"
    by (simp add: demo_exec_def exec_context_def)
  have b1: "captured_err (demo_exec ''import sys; sys.stderr.write(str(1)); result = 1''
      (exec_context demo_df (shared demo_world))) = ''1''"
    by (simp add: run1 s1 captured_err_def)
  have b2: "captured_err (demo_exec ''import sys; sys.stderr.write(str(1)); sys.stderr.close()''
      (exec_context demo_df (shared demo_world))) = ''1''"
    by (simp add: run2 s2 captured_err_def)
  have b3: "captured_err (demo_exec ''import sys; sys.stderr.write(str(1)); raise ValueError(1)''
      (exec_context demo_df (shared demo_world))) = ''1''"
    by (simp add: run3 s3 captured_err_def)
  have c1: "caught (demo_exec ''import sys; sys.stderr.write(str(1)); result = 1''
      (exec_context demo_df (shared demo_world)))"
    by (simp add: run1 caught_def)
  have n1: "captured_err (demo_exec ''import sys; sys.stderr.write(str(1)); result = 1''
      (exec_context demo_df (shared demo_world))) \<noteq> []"
    by (simp add: b1)
  have n2: "captured_err (demo_exec ''import sys; sys.stderr.write(str(1)); sys.stderr.close()''
      (exec_context demo_df (shared demo_world))) \<noteq> []"
    by (simp add: b2)
  have n3: "captured_err (demo_exec ''import sys; sys.stderr.write(str(1)); raise ValueError(1)''
      (exec_context demo_df (shared demo_world))) \<noteq> []"
    by (simp add: b3)
  have r1: "fst (execute_code demo_exec ''import sys; sys.stderr.write(str(1)); result = 1'' demo_df demo_world)
       = Return (PyNone, PyNone)"
    using execute_code_stderr [where py = demo_exec and d = demo_df and w = demo_world
        and code = "''import sys; sys.stderr.write(str(1)); result = 1''", OF n1] c1
    by blast
  have u1: "ui (snd (snd (execute_code demo_exec ''import sys; sys.stderr.write(str(1)); result = 1'' demo_df demo_world)))
       = ui demo_world @ [UiError ''Execution error: 1'']"
    using execute_code_stderr [where py = demo_exec and d = demo_df and w = demo_world
        and code = "''import sys; sys.stderr.write(str(1)); result = 1''", OF n1] run1 s1
    by auto
  have u2: "ui (snd (snd (execute_code demo_exec ''import sys; sys.stderr.write(str(1)); sys.stderr.close()'' demo_df demo_world)))
       = ui demo_world @ [UiError (''Code execution failed:\<newline>```\<newline>'' @ closed_file_traceback @ ''\<newline>```'')]"
    using execute_code_stderr [where py = demo_exec and d = demo_df and w = demo_world
        and code = "''import sys; sys.stderr.write(str(1)); sys.stderr.close()''", OF n2] run2 s2
    by blast
  have u3: "ui (snd (snd (execute_code demo_exec ''import sys; sys.stderr.write(str(1)); raise ValueError(1)'' demo_df demo_world)))
       = ui demo_world
         @ [UiError (''Code execution failed:\<newline>```\<newline>'' @ ''Traceback (most recent call last): ValueError: 1'' @ ''\<newline>```'')]"
    using execute_code_stderr [where py = demo_exec and d = demo_df and w = demo_world
        and code = "''import sys; sys.stderr.write(str(1)); raise ValueError(1)''", OF n3] run3
    by blast
  have e1: "\<exists>s. demo_exec ''import sys; sys.stderr.write(str(1)); result = 1''
            (exec_context demo_df (shared demo_world)) = Finished s
          \<and> \<not> err_closed s \<and> err s = ''1'' \<and> globals s ''result'' = Some (PyInt 1)"
    using run1 s1 by blast
  have e2: "\<exists>s. demo_exec ''import sys; sys.stderr.write(str(1)); sys.stderr.close()''
            (exec_context demo_df (shared demo_world)) = Finished s \<and> err_closed s"
    using run2 s2 by blast
  have e3: "\<exists>s. demo_exec ''import sys; sys.stderr.write(str(1)); raise ValueError(1)''
            (exec_context demo_df (shared demo_world))
          = Raised (Exc ''Traceback (most recent call last): ValueError: 1'') s"
    using run3 by blast
  from b1 c1 e1 r1 u1 b2 e2 u2 b3 e3 u3 show ?thesis by (intro conjI)
qed

theorem stderr_then_raise_counterexample:
  "captured_err (demo_exec ''import sys; sys.stderr.write(str(1)); raise ValueError(1)''
      (exec_context demo_df (shared demo_world))) = ''1''
   \<and> fst (execute_code demo_exec ''import sys; sys.stderr.write(str(1)); raise ValueError(1)'' demo_df demo_world)
       = Return (PyNone, PyNone)
   \<and> ui (snd (snd (execute_code demo_exec ''import sys; sys.stderr.write(str(1)); raise ValueError(1)'' demo_df demo_world)))
       = [UiError ''Code execution failed:\<newline>```\<newline>Traceback (most recent call last): ValueError: 1\<newline>```'']
   \<and> ui (snd (snd (execute_code demo_exec ''import sys; sys.stderr.write(str(1)); raise ValueError(1)'' demo_df demo_world)))
       \<noteq> [UiError ''Execution error: 1'']"
  by (simp add: captured_err_def demo_exec_def exec_context_def execute_code_def Let_def st_error_def
      demo_world_def)

text \<open>
  Claim C5. When \<open>generate_code\<close> yields no code (\<open>None\<close> after a failure, or the empty
  text), the turn ends recorded, the assistant's entry carries only the error
  "Failed to generate code. Please try again.", and \<open>exec\<close> is not called.
\<close>

theorem synthesis_failure_recorded:
  assumes "c = fst (classify_prompt prompt (py_str (info_of d)) w)"
    and "fst (generate_code prompt (py_str (info_of d)) c w) = None
         \<or> fst (generate_code prompt (py_str (info_of d)) c w) = Some []"
  shows "fst (chat_turn py py_str prompt d w) = Recorded
    \<and> (\<exists>m. messages (snd (chat_turn py py_str prompt d w)) = messages w @ [user_entry prompt, m]
          \<and> m_role m = ''assistant''
          \<and> m_error m = Some ''Failed to generate code. Please try again.''
          \<and> m_code m = None \<and> m_result m = None \<and> m_figure m = None)
    \<and> exec_log (snd (chat_turn py py_str prompt d w)) = exec_log w
    \<and> df (snd (chat_turn py py_str prompt d w)) = df w"
proof -
  obtain w5 where sess: "same_session (append_message (user_entry prompt) w) w5"
    and log: "exec_log w5 = exec_log w"
    and turn: "chat_turn py py_str prompt d w =
       (Recorded, append_message failed_to_generate
          (st_error ''Failed to generate code. Please try again.'' w5))"
    using chat_turn_eq [where py = py and py_str = py_str and prompt = prompt and d = d and w = w]
      assms by (auto split: option.splits)
  have "messages w5 = messages w @ [user_entry prompt]" "df w5 = df w"
    using sess by (simp_all add: same_session_def append_message_def)
  then show ?thesis
    using log turn
    by (simp add: append_message_def st_error_def failed_to_generate_def empty_message_def)
qed

theorem synthesis_failure_recorded_witness:
  "fst (generate_code ''Tell me a joke'' (demo_str (info_of demo_df))
          (fst (classify_prompt ''Tell me a joke'' (demo_str (info_of demo_df)) demo_world)) demo_world) = None
   \<and> fst (chat_turn demo_exec demo_str ''Tell me a joke'' demo_df demo_world) = Recorded
   \<and> (\<exists>m. messages (snd (chat_turn demo_exec demo_str ''Tell me a joke'' demo_df demo_world))
            = messages demo_world @ [user_entry ''Tell me a joke'', m]
          \<and> m_error m = Some ''Failed to generate code. Please try again.'')
   \<and> exec_log (snd (chat_turn demo_exec demo_str ''Tell me a joke'' demo_df demo_world)) = exec_log demo_world
   \<and> fst (generate_code ''Say nothing'' (demo_str (info_of demo_df))
          (fst (classify_prompt ''Say nothing'' (demo_str (info_of demo_df)) demo_world)) demo_world) = Some []
   \<and> fst (chat_turn demo_exec demo_str ''Say nothing'' demo_df demo_world) = Recorded
   \<and> (\<exists>m. messages (snd (chat_turn demo_exec demo_str ''Say nothing'' demo_df demo_world))
            = messages demo_world @ [user_entry ''Say nothing'', m]
          \<and> m_error m = Some ''Failed to generate code. Please try again.'')
   \<and> exec_log (snd (chat_turn demo_exec demo_str ''Say nothing'' demo_df demo_world)) = exec_log demo_world"
proof -
  have g: "fst (generate_code ''Tell me a joke'' (demo_str (info_of demo_df))
          (fst (classify_prompt ''Tell me a joke'' (demo_str (info_of demo_df)) demo_world)) demo_world) = None"
    by code_simp
  then have g': "fst (generate_code ''Tell me a joke'' (demo_str (info_of demo_df))
          (fst (classify_prompt ''Tell me a joke'' (demo_str (info_of demo_df)) demo_world)) demo_world) = None
     \<or> fst (generate_code ''Tell me a joke'' (demo_str (info_of demo_df))
          (fst (classify_prompt ''Tell me a joke'' (demo_str (info_of demo_df)) demo_world)) demo_world) = Some []"
    by simp
  have e: "fst (generate_code ''Say nothing'' (demo_str (info_of demo_df))
          (fst (classify_prompt ''Say nothing'' (demo_str (info_of demo_df)) demo_world)) demo_world) = Some []"
    by code_simp
  then have e': "fst (generate_code ''Say nothing'' (demo_str (info_of demo_df))
          (fst (classify_prompt ''Say nothing'' (demo_str (info_of demo_df)) demo_world)) demo_world) = None
     \<or> fst (generate_code ''Say nothing'' (demo_str (info_of demo_df))
          (fst (classify_prompt ''Say nothing'' (demo_str (info_of demo_df)) demo_world)) demo_world) = Some []"
    by simp
  from synthesis_failure_recorded [where py = demo_exec and py_str = demo_str and d = demo_df
      and w = demo_world and prompt = "''Tell me a joke''", OF refl g']
    synthesis_failure_recorded [where py = demo_exec and py_str = demo_str and d = demo_df
      and w = demo_world and prompt = "''Say nothing''", OF refl e'] g e
  show ?thesis by blast
qed

text \<open>
  Claim C6, as amended. \<open>execute_code\<close> does not write to the dataset itself: when the
  call ends, the DataFrame object holds what the snippet left in it. So the dataset is
  unchanged after every snippet that does not modify the object \<open>df\<close> refers to.
\<close>

theorem execute_code_keeps_frame:
  assumes "keeps_frame d (py code (exec_context d (shared w)))"
  shows "fst (snd (execute_code py code d w)) = d"
  using assms
  by (auto simp: keeps_frame_def execute_code_def Let_def split: exec_outcome.splits py_exc.splits)

theorem execute_code_keeps_frame_witness:
  "keeps_frame demo_df (demo_exec ''result = df.head(2)'' (exec_context demo_df (shared demo_world)))
   \<and> fst (snd (execute_code demo_exec ''result = df.head(2)'' demo_df demo_world)) = demo_df"
proof -
  have k: "keeps_frame demo_df (demo_exec ''result = df.head(2)'' (exec_context demo_df (shared demo_world)))"
    by (simp add: keeps_frame_def demo_exec_def exec_context_def)
  from execute_code_keeps_frame [where py = demo_exec and d = demo_df and w = demo_world
      and code = "''result = df.head(2)''"] k
  show ?thesis by simp
qed

theorem inplace_drop_counterexample:
  "fst (execute_code demo_exec ''df.drop(df.index, inplace=True)'' demo_df demo_world)
     = Return (PyNone, PyNone)
   \<and> fst (snd (execute_code demo_exec ''df.drop(df.index, inplace=True)'' demo_df demo_world))
     = \<lparr>df_index = [], df_columns = [(''Lot ID'', ''object'', []), (''Labels Readable'', ''int64'', [])]\<rparr>
   \<and> fst (snd (execute_code demo_exec ''df.drop(df.index, inplace=True)'' demo_df demo_world)) \<noteq> demo_df"
  by (simp add: demo_exec_def exec_context_def execute_code_def Let_def demo_df_def head_def
      dict_get_def exec_globals_def)

text \<open>
  Claim C7. When no dataset is loaded or the API key is empty, a submitted prompt is
  not processed: the welcome page is shown, and the transcript, the requests sent to the
  completion service, the calls of \<open>exec\<close> and the dataset are as before.
\<close>

theorem main_app_guard:
  assumes "df w = None \<or> groq_api_key w = []"
  shows "fst (main_app py py_str chat_input w) = Onboarding
    \<and> messages (snd (main_app py py_str chat_input w)) = messages w
    \<and> gw_log (snd (main_app py py_str chat_input w)) = gw_log w
    \<and> exec_log (snd (main_app py py_str chat_input w)) = exec_log w
    \<and> df (snd (main_app py py_str chat_input w)) = df w
    \<and> ui (snd (main_app py py_str chat_input w)) = ui w @ [UiWelcome]"
  using assms by (auto simp: main_app_def split: option.splits)

theorem main_app_guard_witness:
  "groq_api_key (demo_world\<lparr>groq_api_key := []\<rparr>) = []
   \<and> fst (main_app demo_exec demo_str (Some ''Show me the first 2 rows'') (demo_world\<lparr>groq_api_key := []\<rparr>))
       = Onboarding
   \<and> messages (snd (main_app demo_exec demo_str (Some ''Show me the first 2 rows'')
        (demo_world\<lparr>groq_api_key := []\<rparr>))) = []
   \<and> df (demo_world\<lparr>df := None\<rparr>) = None
   \<and> fst (main_app demo_exec demo_str (Some ''Show me the first 2 rows'') (demo_world\<lparr>df := None\<rparr>))
       = Onboarding
   \<and> messages (snd (main_app demo_exec demo_str (Some ''Show me the first 2 rows'')
        (demo_world\<lparr>df := None\<rparr>))) = []"
proof -
  have k: "df (demo_world\<lparr>groq_api_key := []\<rparr>) = None \<or> groq_api_key (demo_world\<lparr>groq_api_key := []\<rparr>) = []"
    by simp
  have n: "df (demo_world\<lparr>df := None\<rparr>) = None \<or> groq_api_key (demo_world\<lparr>df := None\<rparr>) = []"
    by simp
  show ?thesis
    using main_app_guard [OF k, of demo_exec demo_str "Some ''Show me the first 2 rows''"]
      main_app_guard [OF n, of demo_exec demo_str "Some ''Show me the first 2 rows''"]
    by (simp add: demo_world_def)
qed

lemma main_app_runs_turn:
  "fst (main_app demo_exec demo_str (Some ''Show me the first 2 rows'') demo_world) = Recorded"
  by code_simp

text \<open>
  Claim C8. \<open>get_dataframe_info\<close> leaves the session as it was and its result depends
  on the dataset alone, so a second call on the unchanged dataset gives the same text.
  The sample is taken from \<open>df.head(3)\<close>: no column of it has more than three cells, and
  two datasets with the same number of rows and the same first three rows have the same
  info.
\<close>

theorem get_dataframe_info_pure:
  "snd (get_dataframe_info py_str d w) = w
   \<and> fst (get_dataframe_info py_str d w) = fst (get_dataframe_info py_str d w')
   \<and> get_dataframe_info py_str d (snd (get_dataframe_info py_str d w)) = get_dataframe_info py_str d w
   \<and> sample (info_of d) = frame_to_dict (head 3 d)
   \<and> (\<forall>(name, cells) \<in> set (sample (info_of d)). length cells \<le> 3)
   \<and> (head 3 d = head 3 d' \<and> length (df_index d) = length (df_index d')
        \<longrightarrow> fst (get_dataframe_info py_str d w) = fst (get_dataframe_info py_str d' w))"
proof -
  have "\<forall>(name, cells) \<in> set (sample (info_of d)). length cells \<le> 3"
    using sample_capped by blast
  moreover have "head 3 d = head 3 d' \<and> length (df_index d) = length (df_index d')
        \<longrightarrow> fst (get_dataframe_info py_str d w) = fst (get_dataframe_info py_str d' w)"
    using info_of_cong [of d d'] by (simp add: get_dataframe_info_def)
  moreover have "sample (info_of d) = frame_to_dict (head 3 d)"
    by (simp add: info_of_def)
  ultimately show ?thesis by (simp add: get_dataframe_info_def)
qed

theorem get_dataframe_info_pure_witness:
  "head 3 demo_df = head 3 demo_df_other
   \<and> length (df_index demo_df) = length (df_index demo_df_other)
   \<and> demo_df \<noteq> demo_df_other
   \<and> fst (get_dataframe_info demo_str demo_df demo_world)
       = fst (get_dataframe_info demo_str demo_df_other demo_world)
   \<and> sample (info_of demo_df)
       = [(''Lot ID'', [(''0'', ''A''), (''1'', ''A''), (''2'', ''B'')]),
          (''Labels Readable'', [(''0'', ''1''), (''1'', ''0''), (''2'', ''1'')])]
   \<and> (''Lot ID'', [(''0'', ''A''), (''1'', ''A''), (''2'', ''B'')]) \<in> set (sample (info_of demo_df))
   \<and> length [(''0'', ''A''), (''1'', ''A''), (''2'', ''B'')] \<le> 3"
proof -
  have h: "head 3 demo_df = head 3 demo_df_other"
    by (simp add: head_def demo_df_def demo_df_other_def)
  have l: "length (df_index demo_df) = length (df_index demo_df_other)"
    by (simp add: demo_df_def demo_df_other_def)
  have n: "demo_df \<noteq> demo_df_other"
    by (simp add: demo_df_def demo_df_other_def)
  have s: "sample (info_of demo_df)
       = [(''Lot ID'', [(''0'', ''A''), (''1'', ''A''), (''2'', ''B'')]),
          (''Labels Readable'', [(''0'', ''1''), (''1'', ''0''), (''2'', ''1'')])]"
    by code_simp
  have eq: "fst (get_dataframe_info demo_str demo_df demo_world)
       = fst (get_dataframe_info demo_str demo_df_other demo_world)"
    using get_dataframe_info_pure [of demo_str demo_df demo_world demo_world demo_df_other] h l
    by blast
  have cap: "\<forall>(name, cells) \<in> set (sample (info_of demo_df)). length cells \<le> 3"
    using get_dataframe_info_pure [of demo_str demo_df demo_world demo_world demo_df_other]
    by blast
  have mem: "(''Lot ID'', [(''0'', ''A''), (''1'', ''A''), (''2'', ''B'')]) \<in> set (sample (info_of demo_df))"
    by (simp add: s)
  have len: "length [(''0'', ''A''), (''1'', ''A''), (''2'', ''B'')] \<le> 3"
    using cap mem by blast
  from h l n eq s mem len show ?thesis by (intro conjI)
qed

text \<open>
  Claim C9, as amended. Every call of \<open>execute_code\<close> hands \<open>exec\<close> a new globals
  dictionary holding \<open>df\<close>, \<open>pd\<close>, \<open>px\<close>, \<open>datetime\<close> and \<open>result\<close>, \<open>fig\<close> bound to
  \<open>None\<close>, and nothing else: what an earlier snippet bound in its globals is not in
  it, and a call after another returns what it would return as the first call on the
  dataset and the builtins the earlier one left. What a snippet stores outside its
  globals (in \<open>builtins\<close>, or in the DataFrame object) stays for the next call.
\<close>

theorem execute_code_fresh_context:
  assumes "execute_code py code1 d w = (r1, d1, w1)"
  shows "fst (execute_code py code2 d1 w1) = fst (execute_code py code2 d1 (w\<lparr>shared := shared w1\<rparr>))
    \<and> fst (snd (execute_code py code2 d1 w1))
        = fst (snd (execute_code py code2 d1 (w\<lparr>shared := shared w1\<rparr>)))
    \<and> shared (snd (snd (execute_code py code2 d1 w1)))
        = shared (snd (snd (execute_code py code2 d1 (w\<lparr>shared := shared w1\<rparr>))))
    \<and> last (exec_log (snd (snd (execute_code py code2 d1 w1)))) = exec_context d1 (shared w1)
    \<and> globals (exec_context d1 (shared w1)) = exec_globals
    \<and> (\<forall>name. name \<notin> {''df'', ''pd'', ''px'', ''result'', ''fig'', ''datetime''}
          \<longrightarrow> globals (exec_context d1 (shared w1)) name = None)
    \<and> (\<forall>s. py code2 (exec_context d1 (shared w1)) = Finished s \<and> \<not> err_closed s \<and> err s = []
          \<longrightarrow> fst (execute_code py code2 d1 w1)
                = Return (dict_get (globals s) ''result'', dict_get (globals s) ''fig''))
    \<and> (\<forall>tb s. py code2 (exec_context d1 (shared w1)) = Raised (Exc tb) s
          \<longrightarrow> fst (execute_code py code2 d1 w1) = Return (PyNone, PyNone))"
  by (auto simp: execute_code_def Let_def exec_context_def exec_globals_def st_error_def
      split: exec_outcome.splits py_exc.splits)

theorem execute_code_fresh_context_witness:
  "\<exists>s r1 d1 w1.
     demo_exec ''x = 1'' (exec_context demo_df (shared demo_world)) = Finished s
     \<and> globals s ''x'' = Some (PyInt 1)
     \<and> execute_code demo_exec ''x = 1'' demo_df demo_world = (r1, d1, w1)
     \<and> ''x'' \<notin> {''df'', ''pd'', ''px'', ''result'', ''fig'', ''datetime''}
     \<and> globals (exec_context d1 (shared w1)) ''x'' = None
     \<and> (\<exists>tb s2. demo_exec ''result = x'' (exec_context d1 (shared w1)) = Raised (Exc tb) s2)
     \<and> fst (execute_code demo_exec ''result = x'' d1 w1) = Return (PyNone, PyNone)"
proof -
  obtain s where first: "demo_exec ''x = 1'' (exec_context demo_df (shared demo_world)) = Finished s"
    and bound: "globals s ''x'' = Some (PyInt 1)"
    by (simp add: demo_exec_def)
  obtain r1 d1 w1 where one: "execute_code demo_exec ''x = 1'' demo_df demo_world = (r1, d1, w1)"
    by (rule prod_cases3)
  have sh: "shared w1 = Map.empty"
    using one by (auto simp: execute_code_def Let_def demo_exec_def exec_context_def demo_world_def)
  have name: "''x'' \<notin> {''df'', ''pd'', ''px'', ''result'', ''fig'', ''datetime''}"
    by simp
  note fresh = execute_code_fresh_context [OF one, of "''result = x''"]
  have "\<forall>name. name \<notin> {''df'', ''pd'', ''px'', ''result'', ''fig'', ''datetime''}
          \<longrightarrow> globals (exec_context d1 (shared w1)) name = None"
    using fresh by (elim conjE)
  then have absent: "globals (exec_context d1 (shared w1)) ''x'' = None"
    using name by (elim allE impE)
  have raised: "\<exists>tb s2. demo_exec ''result = x'' (exec_context d1 (shared w1)) = Raised (Exc tb) s2"
    using absent by (simp add: demo_exec_def sh exec_context_def)
  have "\<forall>tb s. demo_exec ''result = x'' (exec_context d1 (shared w1)) = Raised (Exc tb) s
          \<longrightarrow> fst (execute_code demo_exec ''result = x'' d1 w1) = Return (PyNone, PyNone)"
    using fresh by (elim conjE)
  then have ret: "fst (execute_code demo_exec ''result = x'' d1 w1) = Return (PyNone, PyNone)"
    using raised by blast
  show ?thesis
    apply (rule exI [of _ s], rule exI [of _ r1], rule exI [of _ d1], rule exI [of _ w1])
    using first bound one name absent raised ret by (intro conjI)
qed

theorem builtins_leak_counterexample:
  "fst (execute_code demo_exec ''result = x'' demo_df demo_world) = Return (PyNone, PyNone)
   \<and> fst (execute_code demo_exec ''result = x''
          (fst (snd (execute_code demo_exec ''import builtins; builtins.x = 41'' demo_df demo_world)))
          (snd (snd (execute_code demo_exec ''import builtins; builtins.x = 41'' demo_df demo_world))))
       = Return (PyInt 41, PyNone)"
  by (simp add: execute_code_def Let_def demo_exec_def exec_context_def exec_globals_def
      demo_world_def dict_get_def)

text \<open>
  Claim C10, as amended. \<open>execute_code\<close> returns a pair whenever the snippet ends and
  raises, if anything, an instance of \<open>Exception\<close>; the pair is \<open>(None, None)\<close> after
  such an exception. (An exception outside \<open>Exception\<close>, such as \<open>SystemExit\<close>, leaves
  \<open>execute_code\<close>, and a snippet that never ends keeps it from returning.)
\<close>

theorem execute_code_returns:
  assumes "caught (py code (exec_context d (shared w)))"
  shows "(\<exists>result fig. fst (execute_code py code d w) = Return (result, fig))
    \<and> (\<forall>tb s. py code (exec_context d (shared w)) = Raised (Exc tb) s
          \<longrightarrow> fst (execute_code py code d w) = Return (PyNone, PyNone))"
  using assms
  by (auto simp: caught_def execute_code_def Let_def split: exec_outcome.splits py_exc.splits)

theorem execute_code_returns_witness:
  "caught (demo_exec ''import sys; sys.stderr.write(str(1)); raise ValueError(1)'' (exec_context demo_df (shared demo_world)))
   \<and> (\<exists>tb s. demo_exec ''import sys; sys.stderr.write(str(1)); raise ValueError(1)'' (exec_context demo_df (shared demo_world))
        = Raised (Exc tb) s)
   \<and> fst (execute_code demo_exec ''import sys; sys.stderr.write(str(1)); raise ValueError(1)'' demo_df demo_world)
        = Return (PyNone, PyNone)"
proof -
  have c: "caught (demo_exec ''import sys; sys.stderr.write(str(1)); raise ValueError(1)'' (exec_context demo_df (shared demo_world)))"
    by (simp add: caught_def demo_exec_def)
  have r: "\<exists>tb s. demo_exec ''import sys; sys.stderr.write(str(1)); raise ValueError(1)'' (exec_context demo_df (shared demo_world))
        = Raised (Exc tb) s"
    by (simp add: demo_exec_def)
  show ?thesis
    using execute_code_returns [where py = demo_exec and d = demo_df and w = demo_world
        and code = "''import sys; sys.stderr.write(str(1)); raise ValueError(1)''"] c r
    by blast
qed

theorem system_exit_counterexample:
  "fst (execute_code demo_exec ''raise SystemExit'' demo_df demo_world) = Propagate ''SystemExit''
   \<and> fst (execute_code demo_exec ''while True: pass'' demo_df demo_world) = NoReturn"
  by (simp add: demo_exec_def execute_code_def Let_def)

end
